theory Spec2Isabelle
  imports Complex_Main "HOL-Library.Log_Nat"
begin

section \<open>Python values as they reach the routing core\<close>

text \<open>
  The analysis handed to \<open>LLMRouter._validate_analysis\<close> is the result of
  \<open>json.loads\<close>: a dictionary from strings to arbitrary JSON values. A Python float is
  either a finite number or one of the three special values that \<open>json.loads\<close> accepts
  (\<open>NaN\<close>, \<open>Infinity\<close>, \<open>-Infinity\<close>). A finite float is carried as the rational
  number it is exactly.

  Text is a list of 8-bit characters; a character outside ASCII is its UTF-8 bytes.
  A dictionary is an association list in insertion order, looked up from the front.
\<close>

datatype pyfloat = Fin rat | PosInf | NegInf | NaN

datatype pyval =
    PNone
  | PBool bool
  | PInt int
  | PFloat pyfloat
  | PStr string
  | PList "pyval list"
  | PDict "(string \<times> pyval) list"

type_synonym pydict = "(string \<times> pyval) list"

datatype py_error = TypeError | KeyError | ValidationError

text \<open>\<open>d.get(k, default)\<close>, \<open>d[k]\<close> and \<open>d[k] = v\<close> (an existing key keeps its place).\<close>

definition dict_get :: "pydict \<Rightarrow> string \<Rightarrow> pyval \<Rightarrow> pyval" where
  "dict_get d k dflt = (case map_of d k of None \<Rightarrow> dflt | Some v \<Rightarrow> v)"

definition dict_index :: "pydict \<Rightarrow> string \<Rightarrow> py_error + pyval" where
  "dict_index d k = (case map_of d k of None \<Rightarrow> Inl KeyError | Some v \<Rightarrow> Inr v)"

fun dict_set :: "pydict \<Rightarrow> string \<Rightarrow> pyval \<Rightarrow> pydict" where
  "dict_set [] k v = [(k, v)]"
| "dict_set ((k', v') # d) k v = (if k' = k then (k, v) # d else (k', v') # dict_set d k v)"

text \<open>Sequencing of computations that may raise.\<close>

definition bind :: "py_error + 'a \<Rightarrow> ('a \<Rightarrow> py_error + 'b) \<Rightarrow> py_error + 'b" where
  "bind m f = (case m of Inl e \<Rightarrow> Inl e | Inr x \<Rightarrow> f x)"

subsection \<open>Double-precision arithmetic\<close>

text \<open>
  Python floats are IEEE-754 binary64 numbers: 53 significant bits, results rounded to
  the nearest representable number, ties to the even significand. \<open>binade x\<close> is the
  exponent \<open>e\<close> with \<open>2^e \<le> |x| < 2^(e+1)\<close>. The exponent range is not bounded here:
  every number this program computes lies between 0.1 and 4.5, far from overflow and
  from the subnormal numbers.
\<close>

definition round_half_even :: "rat \<Rightarrow> int" where
  "round_half_even x =
     (let f = \<lfloor>x\<rfloor>; r = x - of_int f
      in if r < 1/2 then f else if r > 1/2 then f + 1 else if even f then f else f + 1)"

definition pow2 :: "int \<Rightarrow> rat" where
  "pow2 e = (if e \<ge> 0 then 2 ^ nat e else 1 / 2 ^ nat (- e))"

definition binade :: "rat \<Rightarrow> int" where
  "binade x =
     (let (p, q) = quotient_of \<bar>x\<bar>; k = bitlen p - bitlen q
      in if pow2 k \<le> \<bar>x\<bar> then k else k - 1)"

definition float_round :: "rat \<Rightarrow> rat" where
  "float_round x =
     (if x = 0 then 0
      else let e = binade x - 52 in of_int (round_half_even (x / pow2 e)) * pow2 e)"

text \<open>
  A decimal literal of the source, the conversion of an \<open>int\<close> operand, and the two
  operations the classifier uses. The literals 0.0, 0.5 and 1.0 are binary64 numbers as
  they are written.
\<close>

definition float_lit :: "rat \<Rightarrow> rat" where
  "float_lit q = float_round q"

definition float_of_int :: "int \<Rightarrow> rat" where
  "float_of_int i = float_round (of_int i)"

definition float_add :: "rat \<Rightarrow> rat \<Rightarrow> rat" where
  "float_add a b = float_round (a + b)"

definition float_mul :: "rat \<Rightarrow> rat \<Rightarrow> rat" where
  "float_mul a b = float_round (a * b)"

subsection \<open>Ordering, \<open>min\<close> and \<open>max\<close>\<close>

text \<open>
  The numeric reading of a value: \<open>bool\<close> is a subclass of \<open>int\<close>, and an \<open>int\<close> is
  compared with a float exactly. Every other JSON value has no order against a float.
\<close>

fun as_number :: "pyval \<Rightarrow> pyfloat option" where
  "as_number (PBool b) = Some (Fin (if b then 1 else 0))"
| "as_number (PInt i) = Some (Fin (of_int i))"
| "as_number (PFloat f) = Some f"
| "as_number _ = None"

fun float_lt :: "pyfloat \<Rightarrow> pyfloat \<Rightarrow> bool" where
  "float_lt NaN _ = False"
| "float_lt _ NaN = False"
| "float_lt (Fin a) (Fin b) = (a < b)"
| "float_lt (Fin a) PosInf = True"
| "float_lt (Fin a) NegInf = False"
| "float_lt PosInf _ = False"
| "float_lt NegInf NegInf = False"
| "float_lt NegInf _ = True"

text \<open>
  \<open>a < b\<close> and \<open>a > b\<close>. In this program one operand is always a float literal, so a
  non-number on the other side raises \<open>TypeError\<close>.
\<close>

definition py_lt :: "pyval \<Rightarrow> pyval \<Rightarrow> py_error + bool" where
  "py_lt a b = (case (as_number a, as_number b) of
      (Some x, Some y) \<Rightarrow> Inr (float_lt x y)
    | _ \<Rightarrow> Inl TypeError)"

definition py_gt :: "pyval \<Rightarrow> pyval \<Rightarrow> py_error + bool" where
  "py_gt a b = (case (as_number a, as_number b) of
      (Some x, Some y) \<Rightarrow> Inr (float_lt y x)
    | _ \<Rightarrow> Inl TypeError)"

text \<open>
  The builtins on two arguments: \<open>min(a, b)\<close> is \<open>b\<close> if \<open>b < a\<close> and \<open>a\<close> otherwise;
  \<open>max(a, b)\<close> is \<open>b\<close> if \<open>b > a\<close> and \<open>a\<close> otherwise.
\<close>

definition py_min :: "pyval \<Rightarrow> pyval \<Rightarrow> py_error + pyval" where
  "py_min a b = bind (py_lt b a) (\<lambda>t. Inr (if t then b else a))"

definition py_max :: "pyval \<Rightarrow> pyval \<Rightarrow> py_error + pyval" where
  "py_max a b = bind (py_gt b a) (\<lambda>t. Inr (if t then b else a))"

subsection \<open>Iteration, hashing, membership\<close>

text \<open>
  \<open>for agent in v\<close>: a list yields its elements, a string its one-character strings, a
  dictionary its keys; \<open>None\<close>, booleans and numbers are not iterable.
\<close>

fun py_iter :: "pyval \<Rightarrow> py_error + pyval list" where
  "py_iter (PList xs) = Inr xs"
| "py_iter (PStr s) = Inr (map (\<lambda>c. PStr [c]) s)"
| "py_iter (PDict d) = Inr (map (\<lambda>kv. PStr (fst kv)) d)"
| "py_iter _ = Inl TypeError"

fun py_hashable :: "pyval \<Rightarrow> bool" where
  "py_hashable (PList _) = False"
| "py_hashable (PDict _) = False"
| "py_hashable _ = True"

text \<open>
  \<open>x in [..]\<close> compares with \<open>==\<close>; \<open>x in {..}\<close> hashes \<open>x\<close> first, which raises for a
  list or a dictionary. Both containers here hold strings only, and a string is equal to
  nothing but the same string, so equality of values decides membership.
\<close>

definition py_in_list :: "pyval \<Rightarrow> pyval list \<Rightarrow> bool" where
  "py_in_list x xs = (x \<in> set xs)"

definition py_in_set :: "pyval \<Rightarrow> pyval list \<Rightarrow> py_error + bool" where
  "py_in_set x xs = (if py_hashable x then Inr (x \<in> set xs) else Inl TypeError)"

text \<open>
  \<open>a != b\<close>, evaluated only where \<open>a\<close> is already known to be one of the strings of
  \<open>valid_agents\<close>.
\<close>

definition py_ne :: "pyval \<Rightarrow> pyval \<Rightarrow> bool" where
  "py_ne a b = (a \<noteq> b)"

section \<open>The Intelligent Router: \<open>_validate_analysis\<close>\<close>

definition valid_agents :: "pyval list" where
  "valid_agents = [PStr ''finance'', PStr ''code'']"

text \<open>
  The list comprehension of lines 161-164: each element is tested with
  \<open>agent in valid_agents and agent != validated["primary_agent"]\<close>, left to right.
\<close>

fun filter_secondary :: "pyval \<Rightarrow> pyval list \<Rightarrow> py_error + pyval list" where
  "filter_secondary primary [] = Inr []"
| "filter_secondary primary (agent # rest) =
     bind (py_in_set agent valid_agents) (\<lambda>known.
     bind (filter_secondary primary rest) (\<lambda>kept.
       Inr (if known \<and> py_ne agent primary then agent # kept else kept)))"

definition validate_analysis :: "pydict \<Rightarrow> py_error + pydict" where
  "validate_analysis analysis =
     bind (py_min (PFloat (Fin 1)) (dict_get analysis ''confidence'' (PFloat (Fin (1/2))))) (\<lambda>m.
     bind (py_max (PFloat (Fin 0)) m) (\<lambda>c.
       let validated =
             [(''primary_agent'', dict_get analysis ''primary_agent'' (PStr ''finance'')),
              (''confidence'', c),
              (''is_multi_domain'', dict_get analysis ''is_multi_domain'' (PBool False)),
              (''secondary_agents'', dict_get analysis ''secondary_agents'' (PList [])),
              (''reasoning'', dict_get analysis ''reasoning'' (PStr ''Default routing'')),
              (''query_type'', dict_get analysis ''query_type'' (PStr ''simple'')),
              (''key_topics'', dict_get analysis ''key_topics'' (PList []))]
       in
       bind (dict_index validated ''primary_agent'') (\<lambda>p.
         let validated =
               (if \<not> py_in_list p [PStr ''finance'', PStr ''code'']
                then dict_set (dict_set validated ''primary_agent'' (PStr ''finance''))
                       ''confidence'' (PFloat (Fin (float_lit (3/10))))
                else validated)
         in
         bind (dict_index validated ''secondary_agents'') (\<lambda>s.
         bind (py_iter s) (\<lambda>agents.
         bind (dict_index validated ''primary_agent'') (\<lambda>primary.
         bind (filter_secondary primary agents) (\<lambda>kept.
           Inr (dict_set validated ''secondary_agents'' (PList kept)))))))))"


text \<open>
  The dictionary literal of lines 144-152 once primary agent, confidence and secondary
  agents have their final values; the other four fields are read from the input.
\<close>

definition decision :: "pydict \<Rightarrow> pyval \<Rightarrow> rat \<Rightarrow> pyval list \<Rightarrow> pydict" where
  "decision a p c kept =
     [(''primary_agent'', p),
      (''confidence'', PFloat (Fin c)),
      (''is_multi_domain'', dict_get a ''is_multi_domain'' (PBool False)),
      (''secondary_agents'', PList kept),
      (''reasoning'', dict_get a ''reasoning'' (PStr ''Default routing'')),
      (''query_type'', dict_get a ''query_type'' (PStr ''simple'')),
      (''key_topics'', dict_get a ''key_topics'' (PList []))]"

section \<open>The Keyword Classifier: \<open>_fallback_analysis\<close>\<close>

text \<open>
  \<open>str.lower\<close> follows the case table of Unicode, which is not part of the repository:
  the classifier takes it as a parameter, \<open>lower\<close>. On text of ASCII characters it is
  \<open>str_lower\<close>, which maps the letters A to Z and leaves every other byte as it is.
  \<open>k in s\<close> on strings is containment of \<open>k\<close> as a contiguous substring.
\<close>

definition lower_char :: "char \<Rightarrow> char" where
  "lower_char c =
     (let n = (of_char c :: nat) in if 65 \<le> n \<and> n \<le> 90 then char_of (n + 32) else c)"

definition str_lower :: "string \<Rightarrow> string" where
  "str_lower s = map lower_char s"

fun starts_with :: "string \<Rightarrow> string \<Rightarrow> bool" where
  "starts_with s [] = True"
| "starts_with [] (k # ks) = False"
| "starts_with (c # s) (k # ks) = (c = k \<and> starts_with s ks)"

fun str_contains :: "string \<Rightarrow> string \<Rightarrow> bool" where
  "str_contains [] k = (k = [])"
| "str_contains (c # s) k = (starts_with (c # s) k \<or> str_contains s k)"

definition finance_keywords :: "string list" where
  "finance_keywords =
     [''etf'', ''invest'', ''investment'', ''stock'', ''bond'', ''portfolio'',
      ''index fund'', ''mutual fund'', ''401k'', ''ira'', ''retirement'',
      ''dividend'', ''compound interest'', ''savings'', ''budget'', ''financial'',
      ''money'', ''market'', ''economy'', ''tax'', ''wealth'', ''trading'', ''trade'',
      ''trader'', ''bot'', ''algorithm trading'', ''forex'', ''crypto'', ''price'',
      ''profit'', ''loss'', ''risk'', ''strategy'', ''analysis'', ''buy'', ''sell'',
      ''broker'', ''exchange'', ''volatility'', ''return'', ''yield'']"

definition code_keywords :: "string list" where
  "code_keywords =
     [''python'', ''javascript'', ''java'', ''code'', ''function'', ''api'',
      ''algorithm'', ''programming'', ''software'', ''debug'', ''framework'',
      ''database'', ''sql'', ''rest'', ''web development'', ''class'', ''git'',
      ''docker'', ''deploy'', ''server'', ''client'', ''frontend'', ''backend'',
      ''bot'', ''script'', ''automation'', ''library'', ''package'', ''build'',
      ''develop'', ''implementation'', ''logic'', ''data'', ''scraping'']"

text \<open>\<open>sum(1 for keyword in keywords if keyword in query_lower)\<close>.\<close>

definition finance_score :: "string \<Rightarrow> int" where
  "finance_score query_lower =
     sum_list [1. keyword \<leftarrow> finance_keywords, str_contains query_lower keyword]"

definition code_score :: "string \<Rightarrow> int" where
  "code_score query_lower =
     sum_list [1. keyword \<leftarrow> code_keywords, str_contains query_lower keyword]"

text \<open>
  The confidence \<open>min(0.8, 0.4 + (score * 0.1))\<close> is computed as Python does: the score
  is converted to a float, the product and the sum are rounded to binary64, and the
  literals are the binary64 numbers nearest to 0.8, 0.4, 0.1 and 0.3.
\<close>

definition fallback_analysis :: "(string \<Rightarrow> string) \<Rightarrow> string \<Rightarrow> pydict" where
  "fallback_analysis lower query =
     (let query_lower = lower query;
          finance_score = finance_score query_lower;
          code_score = code_score query_lower;
          (primary, confidence) =
            (if finance_score > code_score
             then (''finance'',
                   min (float_lit (4/5))
                     (float_add (float_lit (2/5))
                        (float_mul (float_of_int finance_score) (float_lit (1/10)))))
             else if code_score > finance_score
             then (''code'',
                   min (float_lit (4/5))
                     (float_add (float_lit (2/5))
                        (float_mul (float_of_int code_score) (float_lit (1/10)))))
             else (''finance'', float_lit (3/10)));
          is_multi_domain = (finance_score > 0 \<and> code_score > 0);
          secondary_agents =
            (if is_multi_domain
             then [PStr (if primary = ''finance'' then ''code'' else ''finance'')]
             else [])
      in [(''primary_agent'', PStr primary),
          (''confidence'', PFloat (Fin confidence)),
          (''is_multi_domain'', PBool is_multi_domain),
          (''secondary_agents'', PList secondary_agents),
          (''reasoning'', PStr ''Keyword-based routing (fallback mode)''),
          (''query_type'', PStr ''simple''),
          (''key_topics'', PList [])])"

section \<open>Text helpers: \<open>str.split\<close> and \<open>str.join\<close>\<close>

text \<open>
  \<open>s.split()\<close> without arguments cuts at runs of whitespace and drops empty pieces. The
  whitespace characters of ASCII are tab to carriage return (9-13), the four separators
  28-31, and the space. Whitespace outside ASCII, at which \<open>str.split\<close> cuts as well, is
  not covered; the texts split below hold none.
\<close>

definition is_space :: "char \<Rightarrow> bool" where
  "is_space c = (let n = (of_char c :: nat) in (9 \<le> n \<and> n \<le> 13) \<or> (28 \<le> n \<and> n \<le> 32))"

fun split_from :: "string \<Rightarrow> string \<Rightarrow> string list" where
  "split_from word [] = (if word = [] then [] else [word])"
| "split_from word (c # s) =
     (if is_space c
      then (if word = [] then split_from [] s else word # split_from [] s)
      else split_from (word @ [c]) s)"

definition str_split :: "string \<Rightarrow> string list" where
  "str_split s = split_from [] s"

fun str_join :: "string \<Rightarrow> string list \<Rightarrow> string" where
  "str_join sep [] = []"
| "str_join sep [w] = w"
| "str_join sep (w # ws) = w @ sep @ str_join sep ws"

section \<open>The finance agent\<close>

text \<open>
  \<open>FinanceAgent._generate_response\<close> picks one of four canned texts by substring tests on
  the lower-cased query; the agent is evaluated below on a query of ASCII characters,
  which \<open>str_lower\<close> lower-cases as \<open>str.lower\<close> does. The bullet character of the
  texts is written as its three UTF-8 bytes.
\<close>

definition newline :: string where
  "newline = [CHR 0x0A]"

definition bullet :: string where
  "bullet = [CHR 0xE2, CHR 0x80, CHR 0xA2]"

definition etf_response :: string where
  "etf_response =
     str_join newline
      [''An ETF (Exchange-Traded Fund) is an investment fund that trades on stock exchanges like individual stocks. ETFs typically track an index, commodity, bonds, or a basket of assets. Key benefits include:'',
       '''',
       bullet @ '' Diversification across many holdings'',
       bullet @ '' Lower expense ratios than mutual funds  '',
       bullet @ '' Intraday trading flexibility'',
       bullet @ '' Tax efficiency'',
       bullet @ '' Transparency of holdings'',
       '''',
       ''Popular ETFs include SPY (S&P 500), VTI (Total Stock Market), and QQQ (Nasdaq 100). They're excellent for passive investing strategies.'']"

definition invest_response :: string where
  "invest_response =
     str_join newline
      [''Here are fundamental investment principles to consider:'',
       '''',
       bullet @ '' Start early - compound interest is powerful'',
       bullet @ '' Diversify your portfolio across asset classes'',
       bullet @ '' Keep costs low with index funds/ETFs'',
       bullet @ '' Dollar-cost averaging reduces timing risk'',
       bullet @ '' Emergency fund before investing (3-6 months expenses)'',
       bullet @ '' Consider your risk tolerance and time horizon'',
       bullet @ '' Regular rebalancing maintains target allocation'',
       '''',
       ''Popular beginner strategies include target-date funds or simple three-fund portfolios (US stocks, international stocks, bonds).'']"

definition index_fund_response :: string where
  "index_fund_response =
     str_join newline
      [''Index funds are mutual funds designed to track a specific market index like the S&P 500. Benefits include:'',
       '''',
       bullet @ '' Broad market diversification'',
       bullet @ '' Low expense ratios (often under 0.1%)'',
       bullet @ '' Consistent market returns'',
       bullet @ '' No active management risk'',
       bullet @ '' Automatic rebalancing'',
       '''',
       ''Popular options:'',
       bullet @ '' Vanguard Total Stock Market (VTSAX)'',
       bullet @ '' Fidelity Total Market (FZROX) '',
       bullet @ '' Schwab Total Stock Market (SWTSX)'',
       '''',
       ''Index funds are ideal for long-term, passive investing strategies.'']"

definition default_response :: "string \<Rightarrow> string" where
  "default_response query =
     str_join newline
      [''I'm FinanceAgent, specialized in financial advice. Your query: '' @ [CHR 0x22] @ query @ [CHR 0x22],
       '''',
       ''I can help with:'',
       bullet @ '' Investment strategies and portfolio allocation'',
       bullet @ '' ETFs, mutual funds, and index fund selection'',
       bullet @ '' Retirement planning (401k, IRA, Roth IRA)'',
       bullet @ '' Market analysis and economic indicators'',
       bullet @ '' Personal finance and budgeting tips'',
       bullet @ '' Risk management and insurance'',
       '''',
       ''Please feel free to ask specific financial questions!'']"

definition finance_generate_response :: "string \<Rightarrow> string" where
  "finance_generate_response query =
     (let query_lower = str_lower query
      in if str_contains query_lower ''etf'' then etf_response
         else if str_contains query_lower ''invest'' \<or> str_contains query_lower ''investment''
         then invest_response
         else if str_contains query_lower ''index fund'' then index_fund_response
         else default_response query)"

section \<open>The orchestrator\<close>

text \<open>
  An agent is its \<open>process_query(query, context)\<close>, which returns text. The registry
  \<open>self.agents\<close> maps agent names to agents. The router class \<open>VertexLLMRouter\<close> is not
  among the sources: its two methods that the orchestrator calls are parameters.

  What the orchestrator does to the outside is recorded as a sequence of events, in the
  order of the calls.
\<close>

type_synonym agent = "string \<Rightarrow> pydict \<Rightarrow> string"

type_synonym registry = "(string \<times> agent) list"

record router =
  analyze_query :: "string \<Rightarrow> pydict"
  route_multi_domain_query :: "string \<Rightarrow> pydict \<Rightarrow> registry \<Rightarrow> py_error + string"

datatype event =
    AnalyzeQuery string
  | RouteMultiDomainQuery string pydict
  | AgentProcessQuery string string
  | LogAgentInteraction string pyval

text \<open>The \<open>context\<close> argument: \<open>None\<close>, a string, or a dictionary.\<close>

datatype ctx = CtxNone | CtxStr string | CtxDict pydict

definition context_dict :: "ctx \<Rightarrow> pydict" where
  "context_dict context =
     (case context of
        CtxNone \<Rightarrow> []
      | CtxStr s \<Rightarrow> [(''model'', PStr s)]
      | CtxDict d \<Rightarrow> d)"

text \<open>Truth value of a Python value in a condition.\<close>

fun py_truthy :: "pyval \<Rightarrow> bool" where
  "py_truthy PNone = False"
| "py_truthy (PBool b) = b"
| "py_truthy (PInt i) = (i \<noteq> 0)"
| "py_truthy (PFloat f) = (f \<noteq> Fin 0)"
| "py_truthy (PStr s) = (s \<noteq> [])"
| "py_truthy (PList xs) = (xs \<noteq> [])"
| "py_truthy (PDict d) = (d \<noteq> [])"

text \<open>\<open>self.agents[agent_name]\<close> for an arbitrary value as key.\<close>

definition agents_index :: "registry \<Rightarrow> pyval \<Rightarrow> py_error + agent" where
  "agents_index agents agent_name =
     (case agent_name of
        PStr n \<Rightarrow> (case map_of agents n of None \<Rightarrow> Inl KeyError | Some a \<Rightarrow> Inr a)
      | _ \<Rightarrow> if py_hashable agent_name then Inl KeyError else Inl TypeError)"

text \<open>
  Lines 98-138 of \<open>process_query\<close>: the multi-domain branch or the single agent, then the
  interaction metric. An exception leaves the function before the metric is logged.
\<close>

definition dispatch ::
  "router \<Rightarrow> registry \<Rightarrow> string \<Rightarrow> string option \<Rightarrow> pydict \<Rightarrow> pyval \<Rightarrow> pydict option
     \<Rightarrow> event list \<Rightarrow> (py_error + string) \<times> event list" where
  "dispatch llm_router agents query user_id context agent_name routing_analysis trace =
     (let multi_domain =
            (case routing_analysis of
               None \<Rightarrow> None
             | Some ra \<Rightarrow>
                 if ra \<noteq> [] \<and> py_truthy (dict_get ra ''is_multi_domain'' (PBool False))
                 then Some ra else None);
          (response, trace) =
            (case multi_domain of
               Some ra \<Rightarrow>
                 (route_multi_domain_query llm_router query ra agents,
                  trace @ [RouteMultiDomainQuery query ra])
             | None \<Rightarrow>
                 (case agents_index agents agent_name of
                    Inl e \<Rightarrow> (Inl e, trace)
                  | Inr agent \<Rightarrow>
                      (Inr (agent query context),
                       trace @ [AgentProcessQuery
                                  (case agent_name of PStr n \<Rightarrow> n | _ \<Rightarrow> []) query])))
      in case response of
           Inl e \<Rightarrow> (Inl e, trace)
         | Inr r \<Rightarrow>
             (Inr r,
              trace @ [LogAgentInteraction
                         (case user_id of
                            None \<Rightarrow> ''anonymous''
                          | Some u \<Rightarrow> if u = [] then ''anonymous'' else u)
                         agent_name]))"

definition process_query ::
  "router \<Rightarrow> registry \<Rightarrow> string \<Rightarrow> string option \<Rightarrow> ctx
     \<Rightarrow> (py_error + string) \<times> event list" where
  "process_query llm_router agents query user_id context =
     (let context = context_dict context;
          requested_model = dict_get context ''model'' (PStr [])
      in if requested_model = PStr ''finance-agent''
         then dispatch llm_router agents query user_id context (PStr ''finance'') None []
         else if requested_model = PStr ''code-agent''
         then dispatch llm_router agents query user_id context (PStr ''code'') None []
         else
           (let routing_analysis = analyze_query llm_router query;
                trace = [AnalyzeQuery query]
            in case dict_index routing_analysis ''primary_agent'' of
                 Inl e \<Rightarrow> (Inl e, trace)
               | Inr agent_name \<Rightarrow>
                   dispatch llm_router agents query user_id context agent_name
                     (Some routing_analysis) trace))"

text \<open>
  The loop of \<open>process_query_stream\<close>: \<open>for i in range(0, len(words), chunk_size)\<close>. The
  pause between two chunks is not modelled.
\<close>

definition chunk_size :: nat where
  "chunk_size = 5"

function stream_chunks :: "string list \<Rightarrow> nat \<Rightarrow> string list" where
  "stream_chunks words i =
     (if i < length words
      then (let chunk = str_join '' '' (take chunk_size (drop i words));
                chunk = (if i + chunk_size < length words then chunk @ '' '' else chunk)
            in chunk # stream_chunks words (i + chunk_size))
      else [])"
  by pat_completeness auto
termination
  by (relation "measure (\<lambda>(words, i). length words - i)") (auto simp: chunk_size_def)

declare stream_chunks.simps [simp del]

definition process_query_stream ::
  "router \<Rightarrow> registry \<Rightarrow> string \<Rightarrow> string option \<Rightarrow> ctx
     \<Rightarrow> (py_error + string list) \<times> event list" where
  "process_query_stream llm_router agents query user_id context =
     (case process_query llm_router agents query user_id context of
        (Inl e, trace) \<Rightarrow> (Inl e, trace)
      | (Inr response, trace) \<Rightarrow>
          (let words = str_split response
           in (Inr (stream_chunks words 0), trace)))"

section \<open>The chat completion endpoint\<close>

text \<open>
  The request and response models of \<open>api/models.py\<close>, with the fields the handler reads
  or writes. An exception is either FastAPI's \<open>HTTPException\<close> with its status code and
  detail, or one of the Python errors above. \<open>str(e)\<close> of an exception is defined by
  the libraries and is a parameter, \<open>exc_str\<close>. The request id (drawn from a UUID) and the
  creation time (read from the clock) are parameters as well.
\<close>

record chat_message =
  role :: string
  content :: string

record chat_completion_request =
  req_messages :: "chat_message list"
  req_model :: "string option"
  req_stream :: "bool option"

record chat_completion_choice =
  choice_index :: nat
  choice_message :: chat_message
  choice_finish_reason :: string

record chat_completion_response =
  resp_id :: string
  resp_created :: int
  resp_model :: string
  resp_choices :: "chat_completion_choice list"
  resp_usage :: "(string \<times> nat) list"

record chunk_data =
  chunk_id :: string
  chunk_created :: int
  chunk_model :: "string option"
  chunk_delta_content :: "string option"
  chunk_finish_reason :: "string option"

datatype sse_event = Data chunk_data | Done

datatype exn = HTTPException nat string | Raised py_error

datatype http_response =
    ChatCompletionResponse chat_completion_response
  | StreamingResponse "sse_event list"

definition model_value :: "string option \<Rightarrow> pyval" where
  "model_value m = (case m of None \<Rightarrow> PNone | Some s \<Rightarrow> PStr s)"

text \<open>
  \<open>stream_chat_response\<close>: one event per chunk, a final chunk and the end marker; an
  exception of the stream becomes an error chunk and the end marker.
\<close>

definition stream_chat_response ::
  "(exn \<Rightarrow> string) \<Rightarrow> router \<Rightarrow> registry \<Rightarrow> string \<Rightarrow> string \<Rightarrow> string option \<Rightarrow> int \<Rightarrow> ctx
     \<Rightarrow> sse_event list \<times> event list" where
  "stream_chat_response exc_str llm_router agents request_id user_message model created_time context =
     (case process_query_stream llm_router agents user_message (Some request_id) context of
        (Inr chunks, trace) \<Rightarrow>
          (map (\<lambda>chunk. Data \<lparr>chunk_id = request_id, chunk_created = created_time,
                              chunk_model = model, chunk_delta_content = Some chunk,
                              chunk_finish_reason = None\<rparr>) chunks
           @ [Data \<lparr>chunk_id = request_id, chunk_created = created_time,
                    chunk_model = model, chunk_delta_content = None,
                    chunk_finish_reason = Some ''stop''\<rparr>,
              Done],
           trace)
      | (Inl e, trace) \<Rightarrow>
          ([Data \<lparr>chunk_id = request_id, chunk_created = created_time,
                   chunk_model = model,
                   chunk_delta_content = Some (''Error: '' @ exc_str (Raised e)),
                   chunk_finish_reason = Some ''error''\<rparr>,
            Done],
           trace))"

text \<open>
  The body of the \<open>try\<close> block of \<open>chat_completions\<close> (lines 46-98). Building the
  response model with \<open>model = None\<close> fails its validation.
\<close>

definition chat_completions_body ::
  "(exn \<Rightarrow> string) \<Rightarrow> router \<Rightarrow> registry \<Rightarrow> string \<Rightarrow> int \<Rightarrow> chat_completion_request
     \<Rightarrow> (exn + http_response) \<times> event list" where
  "chat_completions_body exc_str llm_router agents request_id created_time request =
     (if req_messages request = []
      then (Inl (HTTPException 400 ''Messages cannot be empty''), [])
      else
        (let user_message = content (last (req_messages request))
         in if req_stream request = Some True
            then (case stream_chat_response exc_str llm_router agents request_id user_message
                         (req_model request) created_time
                         (CtxDict [(''model'', model_value (req_model request))]) of
                    (events, trace) \<Rightarrow> (Inr (StreamingResponse events), trace))
            else (case process_query llm_router agents user_message (Some request_id)
                         (CtxDict [(''model'', model_value (req_model request))]) of
                    (Inl e, trace) \<Rightarrow> (Inl (Raised e), trace)
                  | (Inr response_content, trace) \<Rightarrow>
                      (case req_model request of
                         None \<Rightarrow> (Inl (Raised ValidationError), trace)
                       | Some m \<Rightarrow>
                           (Inr (ChatCompletionResponse
                              \<lparr>resp_id = request_id,
                               resp_created = created_time,
                               resp_model = m,
                               resp_choices =
                                 [\<lparr>choice_index = 0,
                                   choice_message =
                                     \<lparr>role = ''assistant'', content = response_content\<rparr>,
                                   choice_finish_reason = ''stop''\<rparr>],
                               resp_usage =
                                 [(''prompt_tokens'', length (str_split user_message)),
                                  (''completion_tokens'', length (str_split response_content)),
                                  (''total_tokens'',
                                   length (str_split user_message) +
                                   length (str_split response_content))]\<rparr>),
                            trace)))))"

text \<open>
  The handler: \<open>except Exception as e\<close> catches whatever the body raises, an
  \<open>HTTPException\<close> included, and raises \<open>HTTPException(500)\<close> in its place.
\<close>

definition chat_completions ::
  "(exn \<Rightarrow> string) \<Rightarrow> router \<Rightarrow> registry \<Rightarrow> string \<Rightarrow> int \<Rightarrow> chat_completion_request
     \<Rightarrow> (exn + http_response) \<times> event list" where
  "chat_completions exc_str llm_router agents request_id created_time request =
     (case chat_completions_body exc_str llm_router agents request_id created_time request of
        (Inl e, trace) \<Rightarrow>
          (Inl (HTTPException 500 (''Internal server error: '' @ exc_str e)), trace)
      | (Inr response, trace) \<Rightarrow> (Inr response, trace))"

section \<open>The float literals of the source\<close>

text \<open>The binary64 numbers written 0.1, 0.3, 0.4 and 0.8, as exact fractions.\<close>

lemma float_lit_values:
  "float_lit (1/10) = 3602879701896397 / 36028797018963968"
  "float_lit (3/10) = 5404319552844595 / 18014398509481984"
  "float_lit (2/5) = 3602879701896397 / 9007199254740992"
  "float_lit (4/5) = 3602879701896397 / 4503599627370496"
  by code_simp+

lemma float_lit_exact: "float_lit 0 = 0" "float_lit (1/2) = 1/2" "float_lit 1 = 1"
  by code_simp+

lemma float_lit_low_range: "0 \<le> float_lit (3/10)" "float_lit (3/10) \<le> 1"
  by (simp_all add: float_lit_values)

section \<open>Properties of the validation step\<close>

lemma bind_Inr_iff: "bind m f = Inr y \<longleftrightarrow> (\<exists>x. m = Inr x \<and> f x = Inr y)"
  by (cases m) (simp_all add: bind_def)

lemma clamp_float:
  "py_min (PFloat (Fin 1)) (PFloat f) = Inr m \<Longrightarrow> py_max (PFloat (Fin 0)) m = Inr c \<Longrightarrow>
     \<exists>r. c = PFloat (Fin r) \<and> 0 \<le> r \<and> r \<le> 1"
  by (cases f) (auto simp: py_min_def py_max_def py_lt_def py_gt_def bind_def split: if_splits)

lemma clamp_range:
  assumes "py_min (PFloat (Fin 1)) x = Inr m" and "py_max (PFloat (Fin 0)) m = Inr c"
  shows "\<exists>r. c = PFloat (Fin r) \<and> 0 \<le> r \<and> r \<le> 1"
proof (cases x)
  case (PFloat f)
  with assms show ?thesis by (auto dest: clamp_float)
next
  case (PBool b)
  with assms show ?thesis
    by (auto simp: py_min_def py_max_def py_lt_def py_gt_def bind_def split: if_splits)
next
  case (PInt i)
  with assms show ?thesis
    by (auto simp: py_min_def py_max_def py_lt_def py_gt_def bind_def split: if_splits)
qed (use assms in \<open>auto simp: py_min_def py_lt_def bind_def\<close>)


lemma filter_secondary_eq:
  "filter_secondary p xs = Inr kept \<Longrightarrow>
     kept = filter (\<lambda>x. x \<in> set valid_agents \<and> x \<noteq> p) xs"
proof (induction xs arbitrary: kept)
  case Nil
  then show ?case by simp
next
  case (Cons a xs)
  then show ?case
    by (auto simp: bind_Inr_iff py_in_set_def py_ne_def split: if_splits)
qed

lemma filter_secondary_sound:
  "filter_secondary p xs = Inr kept \<Longrightarrow>
     set kept \<subseteq> set valid_agents \<and> p \<notin> set kept \<and> filter_secondary p kept = Inr kept"
proof (induction xs arbitrary: kept)
  case Nil
  then show ?case by simp
next
  case (Cons a xs)
  then show ?case
    by (auto simp: bind_Inr_iff py_in_set_def py_ne_def split: if_splits)
qed

text \<open>
  Whenever the validation step returns, its result is the seven-key dictionary with a
  registered primary agent, a finite confidence in the unit interval and a filtered list
  of secondary agents; primary agent and confidence are the input's unless the primary
  agent is unknown.
\<close>

lemma validate_shape:
  assumes "validate_analysis a = Inr v"
  shows "\<exists>p c agents kept. v = decision a p c kept \<and> p \<in> set valid_agents \<and> 0 \<le> c \<and> c \<le> 1 \<and>
           py_iter (dict_get a ''secondary_agents'' (PList [])) = Inr agents \<and>
           filter_secondary p agents = Inr kept \<and>
           (if py_in_list (dict_get a ''primary_agent'' (PStr ''finance''))
                 [PStr ''finance'', PStr ''code'']
            then p = dict_get a ''primary_agent'' (PStr ''finance'') \<and>
                 (\<exists>m. py_min (PFloat (Fin 1)) (dict_get a ''confidence'' (PFloat (Fin (1/2)))) = Inr m \<and>
                      py_max (PFloat (Fin 0)) m = Inr (PFloat (Fin c)))
            else p = PStr ''finance'' \<and> c = float_lit (3/10))"
proof -
  let ?P = "dict_get a ''primary_agent'' (PStr ''finance'')"
  from assms obtain m c0 where
    m: "py_min (PFloat (Fin 1)) (dict_get a ''confidence'' (PFloat (Fin (1/2)))) = Inr m" and
    c0: "py_max (PFloat (Fin 0)) m = Inr c0"
    unfolding validate_analysis_def bind_Inr_iff by blast
  from clamp_range[OF m c0] obtain r where r: "c0 = PFloat (Fin r)" "0 \<le> r" "r \<le> 1" by blast
  show ?thesis
  proof (cases "py_in_list ?P [PStr ''finance'', PStr ''code'']")
    case True
    with assms m c0 r obtain agents kept where
      i: "py_iter (dict_get a ''secondary_agents'' (PList [])) = Inr agents" and
      k: "filter_secondary ?P agents = Inr kept" and
      v: "v = decision a ?P r kept"
      by (auto simp: validate_analysis_def bind_Inr_iff dict_index_def decision_def Let_def)
    from True have "?P \<in> set valid_agents"
      by (simp add: py_in_list_def valid_agents_def)
    with True i k v r m c0 show ?thesis by auto
  next
    case False
    with assms m c0 r obtain agents kept where
      i: "py_iter (dict_get a ''secondary_agents'' (PList [])) = Inr agents" and
      k: "filter_secondary (PStr ''finance'') agents = Inr kept" and
      v: "v = decision a (PStr ''finance'') (float_lit (3/10)) kept"
      by (auto simp: validate_analysis_def bind_Inr_iff dict_index_def decision_def Let_def)
    have "PStr ''finance'' \<in> set valid_agents" by (simp add: valid_agents_def)
    with False i k v float_lit_low_range show ?thesis by auto
  qed
qed

lemma decision_fields:
  "dict_index (decision a p c kept) ''primary_agent'' = Inr p"
  "dict_index (decision a p c kept) ''confidence'' = Inr (PFloat (Fin c))"
  "dict_index (decision a p c kept) ''is_multi_domain'' =
     Inr (dict_get a ''is_multi_domain'' (PBool False))"
  "dict_index (decision a p c kept) ''secondary_agents'' = Inr (PList kept)"
  by (simp_all add: decision_def dict_index_def)



text \<open>
  C3, as stated, fails: the comprehension filters but never removes a repeated
  element. An analysis whose \<open>secondary_agents\<close> is \<open>["code", "code"]\<close> keeps both.
\<close>

theorem validate_secondary_duplicates_counterexample:
  "validate_analysis [(''secondary_agents'', PList [PStr ''code'', PStr ''code''])] =
     Inr [(''primary_agent'', PStr ''finance''),
          (''confidence'', PFloat (Fin (1/2))),
          (''is_multi_domain'', PBool False),
          (''secondary_agents'', PList [PStr ''code'', PStr ''code'']),
          (''reasoning'', PStr ''Default routing''),
          (''query_type'', PStr ''simple''),
          (''key_topics'', PList [])] \<and>
   \<not> distinct [PStr ''code'', PStr ''code'']"
  by (simp add: validate_analysis_def dict_get_def dict_index_def bind_def valid_agents_def
        py_min_def py_max_def py_lt_def py_gt_def py_in_list_def py_in_set_def py_ne_def)

text \<open>
  C3, amended. Whenever the validation step returns, \<open>secondary_agents\<close> is the input
  sequence (the elements of a list, the characters of a string, the keys of a dictionary)
  with exactly those elements kept, in order and with their repetitions, that are
  registered agent identifiers and differ from the validated \<open>primary_agent\<close>. So it
  holds registered identifiers only and never the primary agent.
\<close>

theorem validate_secondary_agents_filtered:
  assumes "validate_analysis a = Inr v"
  shows "\<exists>p agents kept.
           dict_index v ''primary_agent'' = Inr p \<and>
           dict_index v ''secondary_agents'' = Inr (PList kept) \<and>
           py_iter (dict_get a ''secondary_agents'' (PList [])) = Inr agents \<and>
           kept = filter (\<lambda>x. x \<in> set valid_agents \<and> x \<noteq> p) agents \<and>
           set kept \<subseteq> set valid_agents \<and> p \<notin> set kept"
proof -
  from validate_shape[OF assms] obtain p c agents kept where
    v: "v = decision a p c kept" and
    i: "py_iter (dict_get a ''secondary_agents'' (PList [])) = Inr agents" and
    k: "filter_secondary p agents = Inr kept"
    by blast
  have "dict_index v ''primary_agent'' = Inr p" "dict_index v ''secondary_agents'' = Inr (PList kept)"
    using v by (simp_all add: decision_fields)
  with i filter_secondary_eq[OF k] filter_secondary_sound[OF k] show ?thesis by blast
qed

theorem validate_secondary_agents_filtered_witness:
  "validate_analysis
     [(''secondary_agents'', PList [PStr ''code'', PStr ''legal'', PStr ''finance'', PStr ''code''])] =
     Inr (decision
            [(''secondary_agents'', PList [PStr ''code'', PStr ''legal'', PStr ''finance'', PStr ''code''])]
            (PStr ''finance'') (1/2) [PStr ''code'', PStr ''code'']) \<and>
   (\<exists>p agents kept.
      dict_index (decision
            [(''secondary_agents'', PList [PStr ''code'', PStr ''legal'', PStr ''finance'', PStr ''code''])]
            (PStr ''finance'') (1/2) [PStr ''code'', PStr ''code'']) ''primary_agent'' = Inr p \<and>
      dict_index (decision
            [(''secondary_agents'', PList [PStr ''code'', PStr ''legal'', PStr ''finance'', PStr ''code''])]
            (PStr ''finance'') (1/2) [PStr ''code'', PStr ''code'']) ''secondary_agents'' = Inr (PList kept) \<and>
      py_iter (dict_get
            [(''secondary_agents'', PList [PStr ''code'', PStr ''legal'', PStr ''finance'', PStr ''code''])]
            ''secondary_agents'' (PList [])) = Inr agents \<and>
      kept = filter (\<lambda>x. x \<in> set valid_agents \<and> x \<noteq> p) agents \<and>
      set kept \<subseteq> set valid_agents \<and> p \<notin> set kept)"
proof -
  have v: "validate_analysis
     [(''secondary_agents'', PList [PStr ''code'', PStr ''legal'', PStr ''finance'', PStr ''code''])] =
     Inr (decision
            [(''secondary_agents'', PList [PStr ''code'', PStr ''legal'', PStr ''finance'', PStr ''code''])]
            (PStr ''finance'') (1/2) [PStr ''code'', PStr ''code''])"
    by (simp add: validate_analysis_def decision_def dict_get_def dict_index_def bind_def
          valid_agents_def py_min_def py_max_def py_lt_def py_gt_def py_in_list_def
          py_in_set_def py_ne_def)
  from v validate_secondary_agents_filtered[OF v] show ?thesis by (rule conjI)
qed

lemma decision_get:
  "dict_get (decision a p c kept) ''primary_agent'' d = p"
  "dict_get (decision a p c kept) ''confidence'' d = PFloat (Fin c)"
  "dict_get (decision a p c kept) ''is_multi_domain'' d = dict_get a ''is_multi_domain'' (PBool False)"
  "dict_get (decision a p c kept) ''secondary_agents'' d = PList kept"
  "dict_get (decision a p c kept) ''reasoning'' d = dict_get a ''reasoning'' (PStr ''Default routing'')"
  "dict_get (decision a p c kept) ''query_type'' d = dict_get a ''query_type'' (PStr ''simple'')"
  "dict_get (decision a p c kept) ''key_topics'' d = dict_get a ''key_topics'' (PList [])"
  by (simp_all add: decision_def dict_get_def)

lemma clamp_unit:
  assumes "0 \<le> c" "c \<le> 1"
  shows "bind (py_min (PFloat (Fin 1)) (PFloat (Fin c))) (\<lambda>m. bind (py_max (PFloat (Fin 0)) m) f)
           = f (PFloat (Fin c))"
  using assms by (auto simp: py_min_def py_max_def py_lt_def py_gt_def bind_def)

text \<open>A decision that already has the validated shape is returned as it is.\<close>

lemma validate_decision:
  assumes "p \<in> set valid_agents" "0 \<le> c" "c \<le> 1" "filter_secondary p kept = Inr kept"
  shows "validate_analysis (decision a p c kept) = Inr (decision a p c kept)"
proof -
  have p: "py_in_list p [PStr ''finance'', PStr ''code'']"
    using assms(1) by (simp add: py_in_list_def valid_agents_def)
  show ?thesis
    unfolding validate_analysis_def decision_get clamp_unit[OF assms(2,3)]
    using p assms(4)
    by (simp add: Let_def dict_index_def bind_def decision_def)
qed

text \<open>
  C10. The validation step is idempotent: whenever it returns a dictionary, validating
  that dictionary again returns it unchanged, key for key.
\<close>

theorem validate_idempotent:
  assumes "validate_analysis a = Inr v"
  shows "validate_analysis v = Inr v"
proof -
  from validate_shape[OF assms] obtain p c agents kept where
    v: "v = decision a p c kept" and p: "p \<in> set valid_agents" and c: "0 \<le> c" "c \<le> 1" and
    k: "filter_secondary p agents = Inr kept"
    by blast
  from filter_secondary_sound[OF k] have "filter_secondary p kept = Inr kept" by simp
  with p c show ?thesis unfolding v by (rule validate_decision)
qed

theorem validate_idempotent_witness:
  "validate_analysis
     [(''primary_agent'', PStr ''legal''), (''confidence'', PFloat (Fin 5)),
      (''is_multi_domain'', PBool True),
      (''secondary_agents'', PList [PStr ''code'', PStr ''finance'', PStr ''code''])] =
     Inr [(''primary_agent'', PStr ''finance''),
          (''confidence'', PFloat (Fin (float_lit (3/10)))),
          (''is_multi_domain'', PBool True),
          (''secondary_agents'', PList [PStr ''code'', PStr ''code'']),
          (''reasoning'', PStr ''Default routing''),
          (''query_type'', PStr ''simple''),
          (''key_topics'', PList [])] \<and>
   validate_analysis
     [(''primary_agent'', PStr ''finance''),
      (''confidence'', PFloat (Fin (float_lit (3/10)))),
      (''is_multi_domain'', PBool True),
      (''secondary_agents'', PList [PStr ''code'', PStr ''code'']),
      (''reasoning'', PStr ''Default routing''),
      (''query_type'', PStr ''simple''),
      (''key_topics'', PList [])] =
     Inr [(''primary_agent'', PStr ''finance''),
          (''confidence'', PFloat (Fin (float_lit (3/10)))),
          (''is_multi_domain'', PBool True),
          (''secondary_agents'', PList [PStr ''code'', PStr ''code'']),
          (''reasoning'', PStr ''Default routing''),
          (''query_type'', PStr ''simple''),
          (''key_topics'', PList [])]"
proof -
  have v: "validate_analysis
     [(''primary_agent'', PStr ''legal''), (''confidence'', PFloat (Fin 5)),
      (''is_multi_domain'', PBool True),
      (''secondary_agents'', PList [PStr ''code'', PStr ''finance'', PStr ''code''])] =
     Inr [(''primary_agent'', PStr ''finance''),
          (''confidence'', PFloat (Fin (float_lit (3/10)))),
          (''is_multi_domain'', PBool True),
          (''secondary_agents'', PList [PStr ''code'', PStr ''code'']),
          (''reasoning'', PStr ''Default routing''),
          (''query_type'', PStr ''simple''),
          (''key_topics'', PList [])]"
    by (simp add: validate_analysis_def dict_get_def dict_index_def bind_def valid_agents_def
          py_min_def py_max_def py_lt_def py_gt_def py_in_list_def py_in_set_def py_ne_def)
  from v validate_idempotent[OF v] show ?thesis by (rule conjI)
qed

section \<open>Properties of the Keyword Classifier\<close>

text \<open>
  C8, as stated, fails: the keyword \<open>bot\<close> is an element of both lists.
\<close>

theorem keyword_lists_disjoint_counterexample:
  "''bot'' \<in> set finance_keywords \<and> ''bot'' \<in> set code_keywords"
  by (simp add: finance_keywords_def code_keywords_def)

text \<open>
  C8, amended. The two keyword lists share exactly one keyword, \<open>bot\<close>; every other
  keyword is an element of one list only.
\<close>

theorem keyword_lists_share_only_bot:
  "set finance_keywords \<inter> set code_keywords = {''bot''}"
  by (simp add: finance_keywords_def code_keywords_def)

text \<open>The substring test is containment as a contiguous block.\<close>


lemma starts_with_iff: "starts_with s k \<longleftrightarrow> (\<exists>t. s = k @ t)"
  by (induction s k rule: starts_with.induct) auto

lemma str_contains_iff: "str_contains s k \<longleftrightarrow> (\<exists>p t. s = p @ k @ t)"
proof (induction s)
  case Nil
  then show ?case by auto
next
  case (Cons c s)
  show ?case
  proof
    assume "str_contains (c # s) k"
    then consider "starts_with (c # s) k" | "str_contains s k" by auto
    then show "\<exists>p t. c # s = p @ k @ t"
    proof cases
      case 1
      then obtain t where "c # s = k @ t" by (auto simp: starts_with_iff)
      then have "c # s = [] @ k @ t" by simp
      then show ?thesis by blast
    next
      case 2
      with Cons obtain p t where "s = p @ k @ t" by blast
      then have "c # s = (c # p) @ k @ t" by simp
      then show ?thesis by blast
    qed
  next
    assume "\<exists>p t. c # s = p @ k @ t"
    then obtain p t where pt: "c # s = p @ k @ t" by blast
    show "str_contains (c # s) k"
    proof (cases p)
      case Nil
      with pt have "starts_with (c # s) k" unfolding starts_with_iff by auto
      then show ?thesis by simp
    next
      case (Cons a p')
      with pt have "s = p' @ k @ t" by simp
      with Cons.IH have "str_contains s k" by blast
      then show ?thesis by simp
    qed
  qed
qed

lemma score_count:
  "sum_list [1. keyword \<leftarrow> kws, P keyword] = int (length (filter P kws))"
  by (induction kws) simp_all

lemma fallback_fields:
  "dict_index (fallback_analysis lower q) ''primary_agent'' =
     Inr (PStr (if code_score (lower q) > finance_score (lower q) then ''code'' else ''finance''))"
  "dict_index (fallback_analysis lower q) ''confidence'' =
     Inr (PFloat (Fin
       (if finance_score (lower q) > code_score (lower q)
        then min (float_lit (4/5))
               (float_add (float_lit (2/5))
                  (float_mul (float_of_int (finance_score (lower q))) (float_lit (1/10))))
        else if code_score (lower q) > finance_score (lower q)
        then min (float_lit (4/5))
               (float_add (float_lit (2/5))
                  (float_mul (float_of_int (code_score (lower q))) (float_lit (1/10))))
        else float_lit (3/10))))"
  "dict_index (fallback_analysis lower q) ''is_multi_domain'' =
     Inr (PBool (finance_score (lower q) > 0 \<and> code_score (lower q) > 0))"
  "dict_index (fallback_analysis lower q) ''secondary_agents'' =
     Inr (PList (if finance_score (lower q) > 0 \<and> code_score (lower q) > 0
                 then [PStr (if code_score (lower q) > finance_score (lower q)
                             then ''finance'' else ''code'')]
                 else []))"
  by (simp_all add: fallback_analysis_def Let_def dict_index_def)

text \<open>The scores of the queries used below.\<close>

lemma scores_etf:
  "finance_score (str_lower ''What is an ETF?'') = 1"
  "code_score (str_lower ''What is an ETF?'') = 0"
  by code_simp+

lemma scores_debug:
  "finance_score (str_lower ''Debug this Python function'') = 0"
  "code_score (str_lower ''Debug this Python function'') = 3"
  by code_simp+

lemma scores_bot:
  "finance_score (str_lower ''Build a Python trading bot'') = 2"
  "code_score (str_lower ''Build a Python trading bot'') = 3"
  by code_simp+

lemma scores_empty:
  "finance_score [] = 0"
  "code_score [] = 0"
  by code_simp+

text \<open>
  The confidence of a winning score of 1, 2, 3 and 4 in binary64 arithmetic: 0.5,
  0.6000000000000001, 0.7000000000000001 and 0.8. The sums for 2 and 3 are one unit in
  the last place above the binary64 numbers written 0.6 and 0.7.
\<close>

lemma confidence_values:
  "min (float_lit (4/5)) (float_add (float_lit (2/5)) (float_mul (float_lit (1/10)) (float_of_int 1)))
     = 1/2"
  "min (float_lit (4/5)) (float_add (float_lit (2/5)) (float_mul (float_lit (1/10)) (float_of_int 2)))
     = 1351079888211149 / 2251799813685248"
  "min (float_lit (4/5)) (float_add (float_lit (2/5)) (float_mul (float_lit (1/10)) (float_of_int 3)))
     = 6305039478318695 / 9007199254740992"
  "min (float_lit (4/5)) (float_add (float_lit (2/5)) (float_mul (float_lit (1/10)) (float_of_int 4)))
     = float_lit (4/5)"
  by code_simp+

text \<open>
  C2. For every query, with the query lower-cased, \<open>finance_score\<close> and \<open>code_score\<close>
  are the numbers of keywords of each list that occur in it as a substring. The
  classifier returns finance with confidence \<open>min(0.8, 0.4 + 0.1 * finance_score)\<close> when
  the finance score is larger, code with \<open>min(0.8, 0.4 + 0.1 * code_score)\<close> when the
  code score is larger, and finance with confidence 0.3 on a tie; a query whose
  lower-cased text is empty, as the empty query's is, has both scores zero. The
  expressions are evaluated in Python's float arithmetic, so that a winning score of 3
  gives 0.7000000000000001.
\<close>

theorem fallback_primary_and_confidence:
  "let f = finance_score (lower query);
       c = code_score (lower query);
       d = fallback_analysis lower query
   in f = int (length (filter (\<lambda>k. \<exists>p t. lower query = p @ k @ t) finance_keywords)) \<and>
      c = int (length (filter (\<lambda>k. \<exists>p t. lower query = p @ k @ t) code_keywords)) \<and>
      (f > c \<longrightarrow>
         dict_index d ''primary_agent'' = Inr (PStr ''finance'') \<and>
         dict_index d ''confidence'' =
           Inr (PFloat (Fin (min (float_lit (4/5))
                  (float_add (float_lit (2/5)) (float_mul (float_lit (1/10)) (float_of_int f))))))) \<and>
      (c > f \<longrightarrow>
         dict_index d ''primary_agent'' = Inr (PStr ''code'') \<and>
         dict_index d ''confidence'' =
           Inr (PFloat (Fin (min (float_lit (4/5))
                  (float_add (float_lit (2/5)) (float_mul (float_lit (1/10)) (float_of_int c))))))) \<and>
      (f = c \<longrightarrow>
         dict_index d ''primary_agent'' = Inr (PStr ''finance'') \<and>
         dict_index d ''confidence'' = Inr (PFloat (Fin (float_lit (3/10))))) \<and>
      (lower query = [] \<longrightarrow> f = 0 \<and> c = 0)"
proof -
  have "finance_score (lower query) =
          int (length (filter (\<lambda>k. \<exists>p t. lower query = p @ k @ t) finance_keywords))"
    by (simp add: finance_score_def score_count str_contains_iff)
  moreover have "code_score (lower query) =
          int (length (filter (\<lambda>k. \<exists>p t. lower query = p @ k @ t) code_keywords))"
    by (simp add: code_score_def score_count str_contains_iff)
  moreover have "lower query = [] \<longrightarrow>
      finance_score (lower query) = 0 \<and> code_score (lower query) = 0"
    by (simp add: scores_empty)
  moreover have "float_mul a b = float_mul b a" for a b
    by (simp add: float_mul_def mult.commute)
  ultimately show ?thesis
    unfolding Let_def fallback_fields by simp
qed

theorem fallback_primary_and_confidence_witness:
  "(finance_score (str_lower ''What is an ETF?'') > code_score (str_lower ''What is an ETF?'') \<and>
    dict_index (fallback_analysis str_lower ''What is an ETF?'') ''primary_agent'' =
      Inr (PStr ''finance'') \<and>
    dict_index (fallback_analysis str_lower ''What is an ETF?'') ''confidence'' =
      Inr (PFloat (Fin (1/2)))) \<and>
   (code_score (str_lower ''Debug this Python function'') >
      finance_score (str_lower ''Debug this Python function'') \<and>
    dict_index (fallback_analysis str_lower ''Debug this Python function'') ''primary_agent'' =
      Inr (PStr ''code'') \<and>
    dict_index (fallback_analysis str_lower ''Debug this Python function'') ''confidence'' =
      Inr (PFloat (Fin (6305039478318695 / 9007199254740992)))) \<and>
   (str_lower [] = [] \<and>
    finance_score (str_lower []) = code_score (str_lower []) \<and>
    dict_index (fallback_analysis str_lower []) ''primary_agent'' = Inr (PStr ''finance'') \<and>
    dict_index (fallback_analysis str_lower []) ''confidence'' =
      Inr (PFloat (Fin (5404319552844595 / 18014398509481984))))"
proof -
  have "finance_score (str_lower ''What is an ETF?'') > code_score (str_lower ''What is an ETF?'')"
    by (simp add: scores_etf)
  moreover from this fallback_primary_and_confidence[of str_lower "''What is an ETF?''"]
  have "dict_index (fallback_analysis str_lower ''What is an ETF?'') ''primary_agent'' =
          Inr (PStr ''finance'') \<and>
        dict_index (fallback_analysis str_lower ''What is an ETF?'') ''confidence'' =
          Inr (PFloat (Fin (1/2)))"
    unfolding Let_def by (simp add: scores_etf confidence_values)
  moreover have "code_score (str_lower ''Debug this Python function'') >
                 finance_score (str_lower ''Debug this Python function'')"
    by (simp add: scores_debug)
  moreover from this fallback_primary_and_confidence[of str_lower "''Debug this Python function''"]
  have "dict_index (fallback_analysis str_lower ''Debug this Python function'') ''primary_agent'' =
          Inr (PStr ''code'') \<and>
        dict_index (fallback_analysis str_lower ''Debug this Python function'') ''confidence'' =
          Inr (PFloat (Fin (6305039478318695 / 9007199254740992)))"
    unfolding Let_def by (simp add: scores_debug confidence_values)
  moreover have e: "str_lower [] = []"
    by (simp add: str_lower_def)
  moreover from e fallback_primary_and_confidence[of str_lower "[]"]
  have z: "finance_score (str_lower []) = 0 \<and> code_score (str_lower []) = 0"
    unfolding Let_def by blast
  moreover from z fallback_primary_and_confidence[of str_lower "[]"]
  have "dict_index (fallback_analysis str_lower []) ''primary_agent'' = Inr (PStr ''finance'') \<and>
        dict_index (fallback_analysis str_lower []) ''confidence'' =
          Inr (PFloat (Fin (5404319552844595 / 18014398509481984)))"
    unfolding Let_def by (simp add: float_lit_values)
  ultimately show ?thesis by simp
qed

text \<open>
  C6. For every query, \<open>is_multi_domain\<close> is true exactly when both scores are positive.
  Then \<open>secondary_agents\<close> is the one-element sequence holding the agent identifier, of
  finance and code, that is not the primary; otherwise it is empty.
\<close>

theorem fallback_multi_domain:
  "let f = finance_score (lower query);
       c = code_score (lower query);
       d = fallback_analysis lower query
   in dict_index d ''is_multi_domain'' = Inr (PBool (f > 0 \<and> c > 0)) \<and>
      (f > 0 \<and> c > 0 \<longrightarrow>
         (\<exists>p s. dict_index d ''primary_agent'' = Inr (PStr p) \<and>
                dict_index d ''secondary_agents'' = Inr (PList [PStr s]) \<and>
                p \<noteq> s \<and> {p, s} = {''finance'', ''code''})) \<and>
      (\<not> (f > 0 \<and> c > 0) \<longrightarrow> dict_index d ''secondary_agents'' = Inr (PList []))"
  unfolding Let_def fallback_fields by auto

theorem fallback_multi_domain_witness:
  "(finance_score (str_lower ''Build a Python trading bot'') > 0 \<and>
    code_score (str_lower ''Build a Python trading bot'') > 0 \<and>
    dict_index (fallback_analysis str_lower ''Build a Python trading bot'') ''is_multi_domain'' =
      Inr (PBool True) \<and>
    (\<exists>p s. dict_index (fallback_analysis str_lower ''Build a Python trading bot'') ''primary_agent'' =
             Inr (PStr p) \<and>
           dict_index (fallback_analysis str_lower ''Build a Python trading bot'')
             ''secondary_agents'' = Inr (PList [PStr s]) \<and>
           p \<noteq> s \<and> {p, s} = {''finance'', ''code''})) \<and>
   (\<not> (finance_score (str_lower ''What is an ETF?'') > 0 \<and>
        code_score (str_lower ''What is an ETF?'') > 0) \<and>
    dict_index (fallback_analysis str_lower ''What is an ETF?'') ''is_multi_domain'' =
      Inr (PBool False) \<and>
    dict_index (fallback_analysis str_lower ''What is an ETF?'') ''secondary_agents'' =
      Inr (PList []))"
proof -
  have b: "finance_score (str_lower ''Build a Python trading bot'') > 0 \<and>
           code_score (str_lower ''Build a Python trading bot'') > 0"
    by (simp add: scores_bot)
  have e: "\<not> (finance_score (str_lower ''What is an ETF?'') > 0 \<and>
               code_score (str_lower ''What is an ETF?'') > 0)"
    by (simp add: scores_etf)
  from b fallback_multi_domain[of str_lower "''Build a Python trading bot''"]
  have "dict_index (fallback_analysis str_lower ''Build a Python trading bot'') ''is_multi_domain'' =
          Inr (PBool True) \<and>
        (\<exists>p s. dict_index (fallback_analysis str_lower ''Build a Python trading bot'')
                 ''primary_agent'' = Inr (PStr p) \<and>
               dict_index (fallback_analysis str_lower ''Build a Python trading bot'')
                 ''secondary_agents'' = Inr (PList [PStr s]) \<and>
               p \<noteq> s \<and> {p, s} = {''finance'', ''code''})"
    unfolding Let_def by simp
  moreover from e fallback_multi_domain[of str_lower "''What is an ETF?''"]
  have "dict_index (fallback_analysis str_lower ''What is an ETF?'') ''is_multi_domain'' =
          Inr (PBool False) \<and>
        dict_index (fallback_analysis str_lower ''What is an ETF?'') ''secondary_agents'' =
          Inr (PList [])"
    unfolding Let_def by simp
  ultimately show ?thesis using b e by blast
qed

section \<open>The multi-domain flag of a routing decision\<close>

text \<open>
  C7, as stated, fails on the validation path: \<open>is_multi_domain\<close> is copied from the
  input and is not compared with the filtered \<open>secondary_agents\<close>. An analysis that says
  only \<open>is_multi_domain = true\<close> is returned with the flag set and no secondary agent.
\<close>

theorem validate_multi_domain_counterexample:
  "validate_analysis [(''is_multi_domain'', PBool True)] =
     Inr [(''primary_agent'', PStr ''finance''),
          (''confidence'', PFloat (Fin (1/2))),
          (''is_multi_domain'', PBool True),
          (''secondary_agents'', PList []),
          (''reasoning'', PStr ''Default routing''),
          (''query_type'', PStr ''simple''),
          (''key_topics'', PList [])]"
  by (simp add: validate_analysis_def dict_get_def dict_index_def bind_def valid_agents_def
        py_min_def py_max_def py_lt_def py_gt_def py_in_list_def)

text \<open>
  C7, amended. In a decision of the keyword fallback, \<open>is_multi_domain\<close> is true only if
  \<open>secondary_agents\<close> holds a registered agent other than the primary one. In a decision
  of the validation step, \<open>is_multi_domain\<close> is the input's value, or false when the
  input has none.
\<close>

theorem multi_domain_flag:
  "(dict_index (fallback_analysis lower query) ''is_multi_domain'' = Inr (PBool True) \<longrightarrow>
      (\<exists>p s. dict_index (fallback_analysis lower query) ''primary_agent'' = Inr (PStr p) \<and>
             dict_index (fallback_analysis lower query) ''secondary_agents'' = Inr (PList [PStr s]) \<and>
             PStr s \<in> set valid_agents \<and> s \<noteq> p)) \<and>
   (validate_analysis a = Inr v \<longrightarrow>
      dict_index v ''is_multi_domain'' = Inr (dict_get a ''is_multi_domain'' (PBool False)))"
proof (intro conjI impI)
  assume "dict_index (fallback_analysis lower query) ''is_multi_domain'' = Inr (PBool True)"
  then have "finance_score (lower query) > 0 \<and> code_score (lower query) > 0"
    unfolding fallback_fields by simp
  then show "\<exists>p s. dict_index (fallback_analysis lower query) ''primary_agent'' = Inr (PStr p) \<and>
                   dict_index (fallback_analysis lower query) ''secondary_agents'' =
                     Inr (PList [PStr s]) \<and>
                   PStr s \<in> set valid_agents \<and> s \<noteq> p"
    unfolding fallback_fields by (simp add: valid_agents_def)
next
  assume "validate_analysis a = Inr v"
  from validate_shape[OF this] obtain p c kept where "v = decision a p c kept" by blast
  then show "dict_index v ''is_multi_domain'' = Inr (dict_get a ''is_multi_domain'' (PBool False))"
    by (simp add: decision_fields)
qed

theorem multi_domain_flag_witness:
  "(dict_index (fallback_analysis str_lower ''Build a Python trading bot'') ''is_multi_domain'' =
      Inr (PBool True) \<and>
    (\<exists>p s. dict_index (fallback_analysis str_lower ''Build a Python trading bot'') ''primary_agent'' =
             Inr (PStr p) \<and>
           dict_index (fallback_analysis str_lower ''Build a Python trading bot'')
             ''secondary_agents'' = Inr (PList [PStr s]) \<and>
           PStr s \<in> set valid_agents \<and> s \<noteq> p)) \<and>
   (validate_analysis [(''is_multi_domain'', PBool True)] =
      Inr (decision [(''is_multi_domain'', PBool True)] (PStr ''finance'') (1/2) []) \<and>
    dict_index (decision [(''is_multi_domain'', PBool True)] (PStr ''finance'') (1/2) [])
      ''is_multi_domain'' =
      Inr (dict_get [(''is_multi_domain'', PBool True)] ''is_multi_domain'' (PBool False)))"
proof -
  have m: "dict_index (fallback_analysis str_lower ''Build a Python trading bot'')
             ''is_multi_domain'' = Inr (PBool True)"
    unfolding fallback_fields by (simp add: scores_bot)
  have v: "validate_analysis [(''is_multi_domain'', PBool True)] =
             Inr (decision [(''is_multi_domain'', PBool True)] (PStr ''finance'') (1/2) [])"
    by (simp add: validate_analysis_def decision_def dict_get_def dict_index_def bind_def
          valid_agents_def py_min_def py_max_def py_lt_def py_gt_def py_in_list_def)
  from m v multi_domain_flag[of str_lower "''Build a Python trading bot''"
      "[(''is_multi_domain'', PBool True)]"
      "decision [(''is_multi_domain'', PBool True)] (PStr ''finance'') (1/2) []"]
  show ?thesis by blast
qed

section \<open>Properties of the orchestrator\<close>

text \<open>
  C5. When the context asks for \<open>finance-agent\<close> or \<open>code-agent\<close>, no call of the
  router's \<open>analyze_query\<close> is among the events of \<open>process_query\<close>; with the agent in
  the registry, the events are exactly the call of that agent and the interaction
  metric, and the response is the agent's text.
\<close>

theorem explicit_agent_bypasses_router:
  assumes "dict_get (context_dict context) ''model'' (PStr []) = PStr ''finance-agent'' \<or>
           dict_get (context_dict context) ''model'' (PStr []) = PStr ''code-agent''"
  shows "(\<forall>q. AnalyzeQuery q \<notin> set (snd (process_query llm_router agents query user_id context))) \<and>
         (dict_get (context_dict context) ''model'' (PStr []) = PStr ''finance-agent'' \<and>
          map_of agents ''finance'' = Some a
          \<longrightarrow> process_query llm_router agents query user_id context =
                (Inr (a query (context_dict context)),
                 [AgentProcessQuery ''finance'' query,
                  LogAgentInteraction
                    (case user_id of None \<Rightarrow> ''anonymous''
                     | Some u \<Rightarrow> if u = [] then ''anonymous'' else u)
                    (PStr ''finance'')])) \<and>
         (dict_get (context_dict context) ''model'' (PStr []) = PStr ''code-agent'' \<and>
          map_of agents ''code'' = Some a
          \<longrightarrow> process_query llm_router agents query user_id context =
                (Inr (a query (context_dict context)),
                 [AgentProcessQuery ''code'' query,
                  LogAgentInteraction
                    (case user_id of None \<Rightarrow> ''anonymous''
                     | Some u \<Rightarrow> if u = [] then ''anonymous'' else u)
                    (PStr ''code'')]))"
  using assms
  by (auto simp: process_query_def dispatch_def agents_index_def Let_def
           split: option.splits)

theorem explicit_agent_bypasses_router_witness:
  "(\<forall>q. AnalyzeQuery q \<notin> set (snd (process_query
        \<lparr>analyze_query = fallback_analysis str_lower, route_multi_domain_query = (\<lambda>q a r. Inr [])\<rparr>
        [(''finance'', \<lambda>q c. ''F''), (''code'', \<lambda>q c. ''C'')]
        ''Build a Python trading bot'' None
        (CtxDict [(''model'', PStr ''finance-agent'')])))) \<and>
   process_query
        \<lparr>analyze_query = fallback_analysis str_lower, route_multi_domain_query = (\<lambda>q a r. Inr [])\<rparr>
        [(''finance'', \<lambda>q c. ''F''), (''code'', \<lambda>q c. ''C'')]
        ''Build a Python trading bot'' None
        (CtxDict [(''model'', PStr ''finance-agent'')]) =
     (Inr ''F'',
      [AgentProcessQuery ''finance'' ''Build a Python trading bot'',
       LogAgentInteraction ''anonymous'' (PStr ''finance'')]) \<and>
   process_query
        \<lparr>analyze_query = fallback_analysis str_lower, route_multi_domain_query = (\<lambda>q a r. Inr [])\<rparr>
        [(''finance'', \<lambda>q c. ''F''), (''code'', \<lambda>q c. ''C'')]
        ''Build a Python trading bot'' (Some ''u1'')
        (CtxStr ''code-agent'') =
     (Inr ''C'',
      [AgentProcessQuery ''code'' ''Build a Python trading bot'',
       LogAgentInteraction ''u1'' (PStr ''code'')])"
proof -
  have f: "dict_get (context_dict (CtxDict [(''model'', PStr ''finance-agent'')])) ''model'' (PStr [])
             = PStr ''finance-agent''"
    by (simp add: context_dict_def dict_get_def)
  have c: "dict_get (context_dict (CtxStr ''code-agent'')) ''model'' (PStr []) = PStr ''code-agent''"
    by (simp add: context_dict_def dict_get_def)
  have mf: "map_of [(''finance'', \<lambda>q c. ''F''), (''code'', \<lambda>(q::string) (c::pydict). ''C'')] ''finance''
              = Some (\<lambda>q c. ''F'')"
    by simp
  have mc: "map_of [(''finance'', \<lambda>q c. ''F''), (''code'', \<lambda>(q::string) (c::pydict). ''C'')] ''code''
              = Some (\<lambda>q c. ''C'')"
    by simp
  from f mf explicit_agent_bypasses_router[of "CtxDict [(''model'', PStr ''finance-agent'')]"
      "\<lparr>analyze_query = fallback_analysis str_lower, route_multi_domain_query = (\<lambda>q a r. Inr [])\<rparr>"
      "[(''finance'', \<lambda>q c. ''F''), (''code'', \<lambda>q c. ''C'')]"
      "''Build a Python trading bot''" None "\<lambda>q c. ''F''"]
  have 1: "(\<forall>q. AnalyzeQuery q \<notin> set (snd (process_query
        \<lparr>analyze_query = fallback_analysis str_lower, route_multi_domain_query = (\<lambda>q a r. Inr [])\<rparr>
        [(''finance'', \<lambda>q c. ''F''), (''code'', \<lambda>q c. ''C'')]
        ''Build a Python trading bot'' None
        (CtxDict [(''model'', PStr ''finance-agent'')])))) \<and>
      process_query
        \<lparr>analyze_query = fallback_analysis str_lower, route_multi_domain_query = (\<lambda>q a r. Inr [])\<rparr>
        [(''finance'', \<lambda>q c. ''F''), (''code'', \<lambda>q c. ''C'')]
        ''Build a Python trading bot'' None
        (CtxDict [(''model'', PStr ''finance-agent'')]) =
      (Inr ''F'',
       [AgentProcessQuery ''finance'' ''Build a Python trading bot'',
        LogAgentInteraction ''anonymous'' (PStr ''finance'')])"
    by simp
  from c mc explicit_agent_bypasses_router[of "CtxStr ''code-agent''"
      "\<lparr>analyze_query = fallback_analysis str_lower, route_multi_domain_query = (\<lambda>q a r. Inr [])\<rparr>"
      "[(''finance'', \<lambda>q c. ''F''), (''code'', \<lambda>q c. ''C'')]"
      "''Build a Python trading bot''" "Some ''u1''" "\<lambda>q c. ''C''"]
  have 2: "process_query
        \<lparr>analyze_query = fallback_analysis str_lower, route_multi_domain_query = (\<lambda>q a r. Inr [])\<rparr>
        [(''finance'', \<lambda>q c. ''F''), (''code'', \<lambda>q c. ''C'')]
        ''Build a Python trading bot'' (Some ''u1'')
        (CtxStr ''code-agent'') =
      (Inr ''C'',
       [AgentProcessQuery ''code'' ''Build a Python trading bot'',
        LogAgentInteraction ''u1'' (PStr ''code'')])"
    by simp
  from 1 2 show ?thesis by blast
qed

text \<open>Joining the words of two non-empty lists, and the chunks of a stream.\<close>

lemma str_join_append:
  "xs \<noteq> [] \<Longrightarrow> ys \<noteq> [] \<Longrightarrow> str_join sep (xs @ ys) = str_join sep xs @ sep @ str_join sep ys"
  by (induction sep xs rule: str_join.induct) (auto simp: neq_Nil_conv)

lemma stream_chunks_concat: "concat (stream_chunks ws i) = str_join '' '' (drop i ws)"
proof (induction ws i rule: stream_chunks.induct)
  case (1 ws i)
  show ?case
  proof (cases "i < length ws")
    case False
    then show ?thesis by (subst stream_chunks.simps) simp
  next
    case True
    note lt = this
    show ?thesis
    proof (cases "i + chunk_size < length ws")
      case True
      have d: "drop i ws = take chunk_size (drop i ws) @ drop (i + chunk_size) ws"
        by (metis append_take_drop_id drop_drop add.commute)
      have ne1: "take chunk_size (drop i ws) \<noteq> []" using lt by (simp add: chunk_size_def)
      have ne2: "drop (i + chunk_size) ws \<noteq> []" using True by simp
      have "concat (stream_chunks ws i) =
              str_join '' '' (take chunk_size (drop i ws)) @ '' '' @
              str_join '' '' (drop (i + chunk_size) ws)"
        using lt True 1 by (subst stream_chunks.simps) (simp add: Let_def)
      also have "\<dots> = str_join '' '' (drop i ws)"
        using str_join_append[OF ne1 ne2, of "'' ''"] d by simp
      finally show ?thesis .
    next
      case False
      then have t: "take chunk_size (drop i ws) = drop i ws" by simp
      have e: "stream_chunks ws (i + chunk_size) = []"
        using False by (subst stream_chunks.simps) simp
      show ?thesis using lt False t e by (subst stream_chunks.simps) (simp add: Let_def)
    qed
  qed
qed

lemma etf_query: "finance_generate_response ''What is an ETF?'' = etf_response"
  by code_simp

lemma etf_normalised: "str_join '' '' (str_split etf_response) \<noteq> etf_response"
  by code_simp

text \<open>
  C4 fails on the code. The chunks of a stream, put together, are the words of the
  response joined by single spaces, which is not the response when it holds a line break
  or a run of spaces. The query \<open>What is an ETF?\<close> sent to \<open>finance-agent\<close> is answered
  with the canned text on ETFs, which has paragraphs and a bullet list: the streamed
  chunks put together differ from it.
\<close>

theorem stream_differs_from_response:
  "fst (process_query llm_router
          [(''finance'', \<lambda>q c. finance_generate_response q), (''code'', code_agent)]
          ''What is an ETF?'' user_id (CtxDict [(''model'', PStr ''finance-agent'')])) =
     Inr etf_response \<and>
   fst (process_query_stream llm_router
          [(''finance'', \<lambda>q c. finance_generate_response q), (''code'', code_agent)]
          ''What is an ETF?'' user_id (CtxDict [(''model'', PStr ''finance-agent'')])) =
     Inr (stream_chunks (str_split etf_response) 0) \<and>
   concat (stream_chunks (str_split etf_response) 0) = str_join '' '' (str_split etf_response) \<and>
   concat (stream_chunks (str_split etf_response) 0) \<noteq> etf_response"
proof -
  have p: "process_query llm_router
          [(''finance'', \<lambda>q c. finance_generate_response q), (''code'', code_agent)]
          ''What is an ETF?'' user_id (CtxDict [(''model'', PStr ''finance-agent'')]) =
        (Inr etf_response,
         [AgentProcessQuery ''finance'' ''What is an ETF?'',
          LogAgentInteraction
            (case user_id of None \<Rightarrow> ''anonymous'' | Some u \<Rightarrow> if u = [] then ''anonymous'' else u)
            (PStr ''finance'')])"
    by (simp add: process_query_def dispatch_def agents_index_def context_dict_def dict_get_def
          etf_query)
  have c: "concat (stream_chunks (str_split etf_response) 0) =
             str_join '' '' (str_split etf_response)"
    by (simp add: stream_chunks_concat)
  from p c etf_normalised show ?thesis
    by (simp add: process_query_stream_def)
qed

section \<open>Properties of the chat completion endpoint\<close>

text \<open>
  C9 fails on the code. A request with an empty message list raises
  \<open>HTTPException(400)\<close> inside the \<open>try\<close> block; the handler's own \<open>except Exception\<close>
  catches it and answers with status 500, the status of an internal failure.
\<close>

theorem empty_messages_answered_with_500:
  "chat_completions_body exc_str llm_router agents request_id created_time
     \<lparr>req_messages = [], req_model = m, req_stream = s\<rparr> =
     (Inl (HTTPException 400 ''Messages cannot be empty''), []) \<and>
   chat_completions exc_str llm_router agents request_id created_time
     \<lparr>req_messages = [], req_model = m, req_stream = s\<rparr> =
     (Inl (HTTPException 500
             (''Internal server error: '' @
              exc_str (HTTPException 400 ''Messages cannot be empty''))),
      [])"
  by (simp add: chat_completions_def chat_completions_body_def)

end
